theory Spec2Isabelle
  imports Complex_Main "HOL-Library.Log_Nat"
begin

section \<open>Data model\<close>

text \<open>
  The two MongoDB collections of \<^verbatim>\<open>src/app.js\<close>. A collection is a list of
  documents in insertion order (the order \<^verbatim>\<open>find().toArray()\<close> returns them in);
  the \<^verbatim>\<open>_id\<close> that the driver adds to every document is left out, since no
  handler reads it. \<^verbatim>\<open>Date.now()\<close> is an integer number of milliseconds.
  The message fields \<^verbatim>\<open>from, to, text, type, time\<close> carry the prefix \<open>msg_\<close>.

  A field that a handler fills from the request is a string or null (\<open>None\<close>): the driver
  stores an undefined value as null, and a filter on an undefined value looks for null.
\<close>

record participant =
  name :: "string option"
  lastStatus :: int

record message =
  msg_from :: "string option"
  msg_to :: "string option"
  msg_text :: "string option"
  msg_type :: "string option"
  msg_time :: string

text \<open>
  Every call on the store is asynchronous and may reject. The field \<open>faults\<close> lists the
  outcome of the store calls still to come (\<open>True\<close>: the call rejects and changes nothing;
  no entry: the call succeeds), and \<open>trace\<close> records the calls made so far, oldest first.
\<close>

datatype store_op =
    FindOne_participants
  | InsertOne_participants
  | Find_participants
  | UpdateOne_participants
  | DeleteMany_participants
  | InsertOne_messages
  | InsertMany_messages
  | Find_messages

record db =
  participants :: "participant list"
  messages :: "message list"
  faults :: "bool list"
  trace :: "store_op list"

datatype error = StoreError

definition rejects :: "db \<Rightarrow> bool" where
  "rejects d = (case faults d of [] \<Rightarrow> False | f # _ \<Rightarrow> f)"

definition called :: "store_op \<Rightarrow> db \<Rightarrow> db" where
  "called c d = d\<lparr>faults := tl (faults d), trace := trace d @ [c]\<rparr>"

subsection \<open>Store operations\<close>

text \<open>
  The request header \<^verbatim>\<open>user\<close> is a string or \<^verbatim>\<open>undefined\<close> (\<open>None\<close>), and so is the
  \<^verbatim>\<open>name\<close> of a body: a filter by \<open>None\<close> finds the documents whose field is null.
\<close>

definition findOne_name :: "string option \<Rightarrow> db \<Rightarrow> (error + participant option) \<times> db" where
  "findOne_name u d =
     (if rejects d then (Inl StoreError, called FindOne_participants d)
      else (Inr (find (\<lambda>p. name p = u) (participants d)),
            called FindOne_participants d))"

definition insertOne_participant :: "participant \<Rightarrow> db \<Rightarrow> (error + unit) \<times> db" where
  "insertOne_participant p d =
     (if rejects d then (Inl StoreError, called InsertOne_participants d)
      else (Inr (), called InsertOne_participants (d\<lparr>participants := participants d @ [p]\<rparr>)))"

definition insertOne_message :: "message \<Rightarrow> db \<Rightarrow> (error + unit) \<times> db" where
  "insertOne_message m d =
     (if rejects d then (Inl StoreError, called InsertOne_messages d)
      else (Inr (), called InsertOne_messages (d\<lparr>messages := messages d @ [m]\<rparr>)))"

definition insertMany_messages :: "message list \<Rightarrow> db \<Rightarrow> (error + unit) \<times> db" where
  "insertMany_messages ms d =
     (if rejects d then (Inl StoreError, called InsertMany_messages d)
      else (Inr (), called InsertMany_messages (d\<lparr>messages := messages d @ ms\<rparr>)))"

definition find_participants :: "(participant \<Rightarrow> bool) \<Rightarrow> db \<Rightarrow> (error + participant list) \<times> db" where
  "find_participants q d =
     (if rejects d then (Inl StoreError, called Find_participants d)
      else (Inr (filter q (participants d)), called Find_participants d))"

definition find_messages :: "(message \<Rightarrow> bool) \<Rightarrow> db \<Rightarrow> (error + message list) \<times> db" where
  "find_messages q d =
     (if rejects d then (Inl StoreError, called Find_messages d)
      else (Inr (filter q (messages d)), called Find_messages d))"

text \<open>\<^verbatim>\<open>updateOne\<close> changes the first document that matches, and only that one.\<close>

fun set_first :: "string option \<Rightarrow> int \<Rightarrow> participant list \<Rightarrow> participant list" where
  "set_first u t [] = []"
| "set_first u t (p # ps) =
     (if name p = u then p\<lparr>lastStatus := t\<rparr> # ps else p # set_first u t ps)"

definition updateOne_lastStatus :: "string option \<Rightarrow> int \<Rightarrow> db \<Rightarrow> (error + unit) \<times> db" where
  "updateOne_lastStatus u t d =
     (if rejects d then (Inl StoreError, called UpdateOne_participants d)
      else (Inr (), called UpdateOne_participants
                      (d\<lparr>participants := set_first u t (participants d)\<rparr>)))"

definition deleteMany_names :: "string option list \<Rightarrow> db \<Rightarrow> (error + unit) \<times> db" where
  "deleteMany_names ns d =
     (if rejects d then (Inl StoreError, called DeleteMany_participants d)
      else (Inr (), called DeleteMany_participants
                      (d\<lparr>participants := filter (\<lambda>p. name p \<notin> set ns) (participants d)\<rparr>)))"

section \<open>Responses\<close>

text \<open>
  What a handler sends: the status code and the payload. \<open>Status_text\<close> is the default
  body of \<^verbatim>\<open>res.sendStatus\<close>, and \<open>Thrown\<close> the error that \<^verbatim>\<open>res.status(500).send(err)\<close>
  passes on. The three fixed sentences that the handlers send as plain text are the
  constructors \<open>Nome_indisponivel\<close>, \<open>Remetente_nao_encontrado\<close> and \<open>Limit_invalido\<close>.
  What the two \<^verbatim>\<open>GET\<close> handlers print with \<^verbatim>\<open>console.log\<close> is not kept.
\<close>

datatype sent =
    Status_text
  | Nome_indisponivel
  | Remetente_nao_encontrado
  | Limit_invalido
  | Errors "string list"
  | Thrown error
  | Participants "participant list"
  | Messages "message list"

record response =
  status :: nat
  sent :: sent

section \<open>JavaScript numbers\<close>

text \<open>
  \<^verbatim>\<open>GET /messages\<close> applies unary plus to the query parameter \<^verbatim>\<open>limit\<close>. A Number is
  a double: not a number, an infinity, or a finite value, held here as the rational it
  denotes (the two zeros are one value). A string is the list of its code units, which
  this model takes below 256.
\<close>

datatype number = NaN | PosInf | NegInf | Finite rat

definition pow2 :: "int \<Rightarrow> rat" where
  "pow2 e = (if 0 \<le> e then of_int (2 ^ nat e) else 1 / of_int (2 ^ nat (- e)))"

text \<open>The integer \<open>e\<close> with \<open>2\<^sup>e \<le> q < 2\<^sup>e\<^sup>+\<^sup>1\<close>, for a positive \<open>q\<close>.\<close>

definition ilog2 :: "rat \<Rightarrow> int" where
  "ilog2 q =
     (let (a, b) = quotient_of q;
          e = bitlen a - bitlen b
      in if pow2 e \<le> q then e else e - 1)"

definition round_half_even :: "rat \<Rightarrow> int" where
  "round_half_even q =
     (let f = \<lfloor>q\<rfloor>; r = q - of_int f
      in if r < 1 / 2 then f else if 1 / 2 < r then f + 1
         else if even f then f else f + 1)"

text \<open>
  The Number value for a mathematical value: the nearest double, ties to the even
  significand, an infinity from \<open>2\<^sup>1\<^sup>0\<^sup>2\<^sup>4\<close> on. The significand has 53 bits and the
  least exponent is \<open>-1022\<close>.
\<close>

definition to_double :: "rat \<Rightarrow> number" where
  "to_double q =
     (if q = 0 then Finite 0
      else let a = \<bar>q\<bar>;
               ulp = pow2 (max (ilog2 a) (- 1022) - 52);
               v = of_int (round_half_even (a / ulp)) * ulp
           in if pow2 1024 \<le> v then (if q < 0 then NegInf else PosInf)
              else Finite (if q < 0 then - v else v))"

subsection \<open>String to Number\<close>

definition StrWhiteSpaceChar :: "char \<Rightarrow> bool" where
  "StrWhiteSpaceChar c = (of_char c \<in> {9, 10, 11, 12, 13, 32, 160 :: int})"

definition trim :: "string \<Rightarrow> string" where
  "trim s = rev (dropWhile StrWhiteSpaceChar (rev (dropWhile StrWhiteSpaceChar s)))"

definition digit_val :: "int \<Rightarrow> char \<Rightarrow> int option" where
  "digit_val base c =
     (let n = (of_char c :: int);
          v = (if 48 \<le> n \<and> n \<le> 57 then Some (n - 48)
               else if 97 \<le> n \<and> n \<le> 102 then Some (n - 87)
               else if 65 \<le> n \<and> n \<le> 70 then Some (n - 55)
               else None)
      in case v of None \<Rightarrow> None | Some k \<Rightarrow> if k < base then Some k else None)"

fun digits :: "int \<Rightarrow> string \<Rightarrow> int \<Rightarrow> int option" where
  "digits base [] acc = Some acc"
| "digits base (c # cs) acc =
     (case digit_val base c of
        None \<Rightarrow> None
      | Some k \<Rightarrow> digits base cs (base * acc + k))"

text \<open>One digit at least, all of them digits of the base.\<close>

definition Digits :: "int \<Rightarrow> string \<Rightarrow> int option" where
  "Digits base s = (if s = [] then None else digits base s 0)"

definition SignedInteger :: "string \<Rightarrow> int option" where
  "SignedInteger s =
     (case s of
        c # r \<Rightarrow>
          (if c = CHR ''+'' then Digits 10 r
           else if c = CHR ''-'' then map_option uminus (Digits 10 r)
           else Digits 10 s)
      | [] \<Rightarrow> None)"

text \<open>
  \<^verbatim>\<open>digits . digits? exponent?\<close>, \<^verbatim>\<open>. digits exponent?\<close> or \<^verbatim>\<open>digits exponent?\<close>:
  the mathematical value, or \<open>None\<close> when the string has none of these forms.
\<close>

definition StrUnsignedDecimalLiteral :: "string \<Rightarrow> rat option" where
  "StrUnsignedDecimalLiteral s =
     (let mantissa = takeWhile (\<lambda>c. c \<noteq> CHR ''e'' \<and> c \<noteq> CHR ''E'') s;
          ex = dropWhile (\<lambda>c. c \<noteq> CHR ''e'' \<and> c \<noteq> CHR ''E'') s;
          exponent = (if ex = [] then Some 0 else SignedInteger (tl ex));
          ip = takeWhile (\<lambda>c. c \<noteq> CHR ''.'') mantissa;
          dot = dropWhile (\<lambda>c. c \<noteq> CHR ''.'') mantissa;
          fp = (if dot = [] then [] else tl dot)
      in case (exponent, Digits 10 (ip @ fp)) of
           (Some e, Some n) \<Rightarrow>
             Some (of_int n *
                   (let k = e - int (length fp)
                    in if 0 \<le> k then of_int (10 ^ nat k)
                       else 1 / of_int (10 ^ nat (- k))))
         | _ \<Rightarrow> None)"

definition StrDecimalLiteral :: "string \<Rightarrow> number" where
  "StrDecimalLiteral s =
     (let (negative, u) =
            (case s of
               c # r \<Rightarrow> if c = CHR ''-'' then (True, r)
                        else if c = CHR ''+'' then (False, r) else (False, s)
             | [] \<Rightarrow> (False, s))
      in if u = ''Infinity'' then (if negative then NegInf else PosInf)
         else case StrUnsignedDecimalLiteral u of
                None \<Rightarrow> NaN
              | Some q \<Rightarrow> to_double (if negative then - q else q))"

definition NonDecimalIntegerLiteral :: "string \<Rightarrow> int option" where
  "NonDecimalIntegerLiteral s =
     (case s of
        z # p # r \<Rightarrow>
          (if z \<noteq> CHR ''0'' then None
           else if p = CHR ''x'' \<or> p = CHR ''X'' then Digits 16 r
           else if p = CHR ''o'' \<or> p = CHR ''O'' then Digits 8 r
           else if p = CHR ''b'' \<or> p = CHR ''B'' then Digits 2 r
           else None)
      | _ \<Rightarrow> None)"

definition StringToNumber :: "string \<Rightarrow> number" where
  "StringToNumber s =
     (let t = trim s
      in if t = [] then Finite 0
         else case NonDecimalIntegerLiteral t of
                Some n \<Rightarrow> to_double (of_int n)
              | None \<Rightarrow> StrDecimalLiteral t)"

subsection \<open>Query values\<close>

text \<open>
  The query parser gives a string, an array (\<^verbatim>\<open>?limit=1&limit=2\<close>) or an object
  (\<^verbatim>\<open>?limit[a]=1\<close>), whose values are again of these three kinds. An object is the list
  of its own properties.

  Unary plus converts an array through its \<^verbatim>\<open>join(",")\<close>. An object is converted through
  its \<^verbatim>\<open>valueOf\<close> and \<^verbatim>\<open>toString\<close>: an own property of those names is a parsed value, never
  a function, and is passed over, and the inherited \<^verbatim>\<open>valueOf\<close> returns the object itself.
  So an object without an own \<^verbatim>\<open>toString\<close> property is converted through
  \<^verbatim>\<open>"[object Object]"\<close>, and for an object with one (\<^verbatim>\<open>?limit[toString]=1\<close>) the
  conversion throws a \<^verbatim>\<open>TypeError\<close>, also when the object is an element of an array.
\<close>

datatype qvalue =
    QString string
  | QArray "qvalue list"
  | QObject "(string \<times> qvalue) list"

datatype thrown = TypeError

fun join :: "string list \<Rightarrow> string" where
  "join [] = []"
| "join [s] = s"
| "join (s # ss) = s @ '','' @ join ss"

text \<open>The strings of the elements, or what the first element that throws has thrown.\<close>

fun strings :: "(thrown + string) list \<Rightarrow> thrown + string list" where
  "strings [] = Inr []"
| "strings (Inl e # rest) = Inl e"
| "strings (Inr s # rest) = (case strings rest of Inl e \<Rightarrow> Inl e | Inr ss \<Rightarrow> Inr (s # ss))"

fun ToString :: "qvalue \<Rightarrow> thrown + string" where
  "ToString (QString s) = Inr s"
| "ToString (QArray vs) =
     (case strings (map ToString vs) of Inl e \<Rightarrow> Inl e | Inr ss \<Rightarrow> Inr (join ss))"
| "ToString (QObject kvs) =
     (if ''toString'' \<in> set (map fst kvs) then Inl TypeError else Inr ''[object Object]'')"

definition ToNumber :: "qvalue \<Rightarrow> thrown + number" where
  "ToNumber v = (case ToString v of Inl e \<Rightarrow> Inl e | Inr s \<Rightarrow> Inr (StringToNumber s))"

subsection \<open>The operations on numbers that the handler uses\<close>

definition isInteger :: "number \<Rightarrow> bool" where
  "isInteger x = (case x of Finite q \<Rightarrow> of_int \<lfloor>q\<rfloor> = q | _ \<Rightarrow> False)"

text \<open>\<^verbatim>\<open>x < y\<close>: false as soon as one side is not a number.\<close>

fun less_than :: "number \<Rightarrow> number \<Rightarrow> bool" where
  "less_than NaN y = False"
| "less_than x NaN = False"
| "less_than x NegInf = False"
| "less_than PosInf y = False"
| "less_than NegInf y = True"
| "less_than (Finite a) PosInf = True"
| "less_than (Finite a) (Finite b) = (a < b)"

fun negate :: "number \<Rightarrow> number" where
  "negate NaN = NaN"
| "negate PosInf = NegInf"
| "negate NegInf = PosInf"
| "negate (Finite q) = Finite (- q)"

text \<open>
  \<^verbatim>\<open>array.slice(start)\<close>: the start is truncated to an integer, counted from the end when
  negative, and clamped to the array.
\<close>

definition slice :: "number \<Rightarrow> 'a list \<Rightarrow> 'a list" where
  "slice start xs =
     (let len = int (length xs)
      in case start of
           NaN \<Rightarrow> xs
         | NegInf \<Rightarrow> xs
         | PosInf \<Rightarrow> []
         | Finite q \<Rightarrow>
             (let relativeStart = (if 0 \<le> q then \<lfloor>q\<rfloor> else \<lceil>q\<rceil>);
                  k = (if relativeStart < 0 then max (len + relativeStart) 0
                       else min relativeStart len)
              in drop (nat k) xs))"

section \<open>Request bodies and their validation\<close>

text \<open>
  The body that \<^verbatim>\<open>express.json()\<close> hands to a handler is a parsed JSON value. An object
  is the list of its own properties in enumeration order, each key once. A key
  \<^verbatim>\<open>__proto__\<close> of the JSON text is an own property like the others.
\<close>

datatype json =
    JNull
  | JBool bool
  | JNum rat
  | JStr string
  | JArr "json list"
  | JObj "(string \<times> json) list"

text \<open>
  \<^verbatim>\<open>body.key\<close>, for the keys that the handlers read (none of them is a property of every
  object): \<open>None\<close> is \<^verbatim>\<open>undefined\<close>.
\<close>

definition property :: "json \<Rightarrow> string \<Rightarrow> json option" where
  "property body key = (case body of JObj kvs \<Rightarrow> map_of kvs key | _ \<Rightarrow> None)"

text \<open>
  The two schemas are built with the joi library. A key is
  \<^verbatim>\<open>joi.string().required()\<close>, with \<^verbatim>\<open>.valid(...)\<close> when \<open>only\<close> lists values.
\<close>

record key_schema =
  only :: "string list option"

type_synonym schema = "(string \<times> key_schema) list"

definition schemaName :: schema where
  "schemaName = [(''name'', \<lparr>only = None\<rparr>)]"

definition schemaMessage :: schema where
  "schemaMessage =
     [(''to'', \<lparr>only = None\<rparr>),
      (''text'', \<lparr>only = None\<rparr>),
      (''type'', \<lparr>only = Some [''message'', ''private_message'']\<rparr>)]"

text \<open>
  \<^verbatim>\<open>schema.validate(body, { abortEarly })\<close>, as the library does it: the messages
  of \<^verbatim>\<open>validation.error.details\<close>, or \<open>None\<close> when \<^verbatim>\<open>validation.error\<close> is undefined.
  A key that is undefined is reported as required. A value outside the \<^verbatim>\<open>valid\<close> list
  is reported, and checked as a string as well; a value that is not a string, or is the
  empty string, is reported. Keys that the schema does not name are reported last. With
  \<^verbatim>\<open>abortEarly\<close> the validation stops at the first report.

  The library validates a shallow copy of the body, which it fills with
  \<^verbatim>\<open>Object.assign\<close>. Assigning the body's own \<^verbatim>\<open>__proto__\<close> property to the copy does not
  give the copy a property: it makes the value the prototype of the copy when the value is
  an object, an array or null, and has no effect when it is a number, a string or a
  boolean. An array or null has no property of the names that the two schemas check. So a
  key of the schema (none is \<^verbatim>\<open>__proto__\<close>) is checked on the body's own property of that
  name or else, when \<^verbatim>\<open>__proto__\<close> is an object, on the own property of that object
  (\<open>clone_get\<close>), and
  \<^verbatim>\<open>__proto__\<close> is never among the keys reported as not allowed (\<open>clone_keys\<close>). The
  handlers go on reading the body itself, not the copy.
\<close>

definition clone_keys :: "(string \<times> json) list \<Rightarrow> string list" where
  "clone_keys kvs = filter (\<lambda>key. key \<noteq> ''__proto__'') (map fst kvs)"

definition clone_get :: "(string \<times> json) list \<Rightarrow> string \<Rightarrow> json option" where
  "clone_get kvs key =
     (case map_of (filter (\<lambda>(k, v). k \<noteq> ''__proto__'') kvs) key of
        Some v \<Rightarrow> Some v
      | None \<Rightarrow>
          (case map_of kvs ''__proto__'' of
             Some (JObj proto) \<Rightarrow> map_of proto key
           | _ \<Rightarrow> None))"

definition label :: "string \<Rightarrow> string" where
  "label key = [CHR 0x22] @ key @ [CHR 0x22]"

definition string_base :: "string \<Rightarrow> json \<Rightarrow> string list" where
  "string_base key v =
     (case v of
        JStr s \<Rightarrow> if s = [] then [label key @ '' is not allowed to be empty''] else []
      | _ \<Rightarrow> [label key @ '' must be a string''])"

definition validate_key :: "string \<Rightarrow> key_schema \<Rightarrow> json option \<Rightarrow> string list" where
  "validate_key key ks v =
     (case v of
        None \<Rightarrow> [label key @ '' is required'']
      | Some x \<Rightarrow>
          (case only ks of
             None \<Rightarrow> string_base key x
           | Some valids \<Rightarrow>
               if x \<in> JStr ` set valids then []
               else (label key @ '' must be ''
                       @ (if length valids = 1 then [] else ''one of '')
                       @ ''['' @ foldr (\<lambda>a b. if b = [] then a else a @ '', '' @ b) valids []
                       @ '']'')
                    # string_base key x))"

definition violations :: "schema \<Rightarrow> json \<Rightarrow> string list" where
  "violations sch body =
     (case body of
        JObj kvs \<Rightarrow>
          concat (map (\<lambda>(key, ks). validate_key key ks (clone_get kvs key)) sch)
          @ map (\<lambda>key. label key @ '' is not allowed'')
                (filter (\<lambda>key. key \<notin> set (map fst sch)) (clone_keys kvs))
      | _ \<Rightarrow> [label ''value'' @ '' must be of type object''])"

definition validate :: "schema \<Rightarrow> json \<Rightarrow> bool \<Rightarrow> string list option" where
  "validate sch body abortEarly =
     (let details = violations sch body
      in if details = [] then None
         else Some (if abortEarly then take 1 details else details))"

text \<open>
  A property of a body that has passed the validation, as a filter or a stored field: it is
  a string, or it is undefined (the validated value was inherited by the copy) and counts
  as null. An own property of another kind does not pass the validation.
\<close>

definition string_of :: "json option \<Rightarrow> string option" where
  "string_of v = (case v of Some (JStr s) \<Rightarrow> Some s | _ \<Rightarrow> None)"

section \<open>POST /participants\<close>

text \<open>
  \<open>Date_now\<close> and \<open>now\<close> are the readings of \<^verbatim>\<open>Date.now()\<close> and of \<^verbatim>\<open>now()\<close>, the
  time of day as \<^verbatim>\<open>HH:mm:ss\<close>. A handler returns its response and the store it leaves.
\<close>

definition post_participants :: "json \<Rightarrow> int \<Rightarrow> string \<Rightarrow> db \<Rightarrow> response \<times> db" where
  "post_participants body Date_now now d =
     (case validate schemaName body False of
        Some errors \<Rightarrow> (\<lparr>status = 422, sent = Errors errors\<rparr>, d)
      | None \<Rightarrow>
          (case findOne_name (string_of (property body ''name'')) d of
             (Inl err, d1) \<Rightarrow> (\<lparr>status = 500, sent = Thrown err\<rparr>, d1)
           | (Inr existingUser, d1) \<Rightarrow>
               (case existingUser of
                  Some _ \<Rightarrow> (\<lparr>status = 409, sent = Nome_indisponivel\<rparr>, d1)
                | None \<Rightarrow>
                    (let user = \<lparr>name = string_of (property body ''name''),
                                 lastStatus = Date_now\<rparr>;
                         message = \<lparr>msg_from = string_of (property body ''name''),
                                    msg_to = Some ''Todos'',
                                    msg_text = Some ''entra na sala...'',
                                    msg_type = Some ''status'', msg_time = now\<rparr>
                     in case insertOne_participant user d1 of
                          (Inl err, d2) \<Rightarrow> (\<lparr>status = 500, sent = Thrown err\<rparr>, d2)
                        | (Inr _, d2) \<Rightarrow>
                            (case insertOne_message message d2 of
                               (Inl err, d3) \<Rightarrow> (\<lparr>status = 500, sent = Thrown err\<rparr>, d3)
                             | (Inr _, d3) \<Rightarrow>
                                 (\<lparr>status = 201, sent = Status_text\<rparr>, d3))))))"

section \<open>GET /participants\<close>

definition get_participants :: "db \<Rightarrow> response \<times> db" where
  "get_participants d =
     (case find_participants (\<lambda>p. True) d of
        (Inl err, d1) \<Rightarrow> (\<lparr>status = 500, sent = Status_text\<rparr>, d1)
      | (Inr participants', d1) \<Rightarrow> (\<lparr>status = 200, sent = Participants participants'\<rparr>, d1))"

section \<open>POST /messages\<close>

definition post_messages :: "json \<Rightarrow> string option \<Rightarrow> string \<Rightarrow> db \<Rightarrow> response \<times> db" where
  "post_messages body user now d =
     (case validate schemaMessage body False of
        Some errors \<Rightarrow> (\<lparr>status = 422, sent = Errors errors\<rparr>, d)
      | None \<Rightarrow>
          (case findOne_name user d of
             (Inl err, d1) \<Rightarrow> (\<lparr>status = 500, sent = Thrown err\<rparr>, d1)
           | (Inr existingUser, d1) \<Rightarrow>
               (case existingUser of
                  None \<Rightarrow> (\<lparr>status = 422, sent = Remetente_nao_encontrado\<rparr>, d1)
                | Some _ \<Rightarrow>
                    (let message = \<lparr>msg_from = user,
                                    msg_to = string_of (property body ''to''),
                                    msg_text = string_of (property body ''text''),
                                    msg_type = string_of (property body ''type''),
                                    msg_time = now\<rparr>
                     in case insertOne_message message d1 of
                          (Inl err, d2) \<Rightarrow> (\<lparr>status = 500, sent = Thrown err\<rparr>, d2)
                        | (Inr _, d2) \<Rightarrow> (\<lparr>status = 201, sent = Status_text\<rparr>, d2)))))"

section \<open>GET /messages\<close>

text \<open>
  The guard on \<^verbatim>\<open>limit\<close> stands before the \<^verbatim>\<open>try\<close>: when the conversion of \<^verbatim>\<open>limit\<close>
  throws, the handler throws (\<open>Inl\<close>) and sends no response. Inside the \<^verbatim>\<open>try\<close> a throw
  would be caught and answered 500.
\<close>

definition get_messages ::
  "qvalue option \<Rightarrow> string option \<Rightarrow> db \<Rightarrow> (thrown + response) \<times> db" where
  "get_messages limit user d =
     (case (case limit of
              None \<Rightarrow> Inr False
            | Some l \<Rightarrow>
                (case ToNumber l of
                   Inl err \<Rightarrow> Inl err
                 | Inr x \<Rightarrow> Inr (\<not> isInteger x \<or> less_than x (Finite 1)))) of
        Inl err \<Rightarrow> (Inl err, d)
      | Inr refused \<Rightarrow>
          if refused then (Inr \<lparr>status = 422, sent = Limit_invalido\<rparr>, d)
          else
            (case find_messages
                    (\<lambda>m. msg_to m = user \<or> msg_to m = Some ''Todos'' \<or> msg_from m = user) d of
               (Inl err, d1) \<Rightarrow> (Inr \<lparr>status = 500, sent = Status_text\<rparr>, d1)
             | (Inr messages', d1) \<Rightarrow>
                 (case limit of
                    None \<Rightarrow> (Inr \<lparr>status = 200, sent = Messages messages'\<rparr>, d1)
                  | Some l \<Rightarrow>
                      (case ToNumber l of
                         Inl err \<Rightarrow> (Inr \<lparr>status = 500, sent = Status_text\<rparr>, d1)
                       | Inr limitInt \<Rightarrow>
                           (Inr \<lparr>status = 200,
                                 sent = Messages (slice (negate limitInt) messages')\<rparr>,
                            d1)))))"

section \<open>POST /status\<close>

definition post_status :: "string option \<Rightarrow> int \<Rightarrow> db \<Rightarrow> response \<times> db" where
  "post_status user Date_now d =
     (case findOne_name user d of
        (Inl err, d1) \<Rightarrow> (\<lparr>status = 500, sent = Thrown err\<rparr>, d1)
      | (Inr userOn, d1) \<Rightarrow>
          (case userOn of
             None \<Rightarrow> (\<lparr>status = 404, sent = Status_text\<rparr>, d1)
           | Some _ \<Rightarrow>
               (case updateOne_lastStatus user Date_now d1 of
                  (Inl err, d2) \<Rightarrow> (\<lparr>status = 500, sent = Thrown err\<rparr>, d2)
                | (Inr _, d2) \<Rightarrow> (\<lparr>status = 200, sent = Status_text\<rparr>, d2))))"

section \<open>The reaper\<close>

text \<open>
  \<^verbatim>\<open>removeInactiveUsers\<close>. \<open>Date_now\<close> is the reading of \<^verbatim>\<open>Date.now()\<close>;
  \<open>now i\<close> is what the \<open>i\<close>-th call of \<^verbatim>\<open>now()\<close> inside the \<^verbatim>\<open>map\<close> returns.
  The result holds the store after the sweep and what \<^verbatim>\<open>console.log\<close> printed.
\<close>

definition removeInactiveUsers :: "int \<Rightarrow> (nat \<Rightarrow> string) \<Rightarrow> db \<Rightarrow> error list \<times> db" where
  "removeInactiveUsers Date_now now d =
     (let threshold = Date_now - 10000 in
      case find_participants (\<lambda>p. lastStatus p \<le> threshold) d of
        (Inl err, d1) \<Rightarrow> ([err], d1)
      | (Inr inactiveUsers, d1) \<Rightarrow>
          (let messagesToInsert =
                 map (\<lambda>(i, user). \<lparr>msg_from = name user, msg_to = Some ''Todos'',
                                       msg_text = Some ''sai da sala...'',
                                       msg_type = Some ''status'', msg_time = now i\<rparr>)
                     (enumerate 0 inactiveUsers);
               userNamesToDelete = map name inactiveUsers
           in case (if length messagesToInsert > 0
                    then insertMany_messages messagesToInsert d1 else (Inr (), d1)) of
                (Inl err, d2) \<Rightarrow> ([err], d2)
              | (Inr _, d2) \<Rightarrow>
                  (case (if length userNamesToDelete > 0
                         then deleteMany_names userNamesToDelete d2 else (Inr (), d2)) of
                     (Inl err, d3) \<Rightarrow> ([err], d3)
                   | (Inr _, d3) \<Rightarrow> ([], d3))))"

section \<open>Invariant, assumptions and example states\<close>

text \<open>
  Names are unique among the participants, the null name included: the invariant of the
  data model, kept by every handler and by the reaper when they run one after the other.
\<close>

definition unique_names :: "db \<Rightarrow> bool" where
  "unique_names d = distinct (map name (participants d))"

text \<open>No store call still to come rejects.\<close>

definition healthy :: "db \<Rightarrow> bool" where
  "healthy d = (True \<notin> set (faults d))"

text \<open>The departure messages of a sweep at \<open>Date_now\<close>, one for each inactive participant.\<close>

definition departures :: "int \<Rightarrow> (nat \<Rightarrow> string) \<Rightarrow> db \<Rightarrow> message list" where
  "departures Date_now now d =
     map (\<lambda>(i, p). \<lparr>msg_from = name p, msg_to = Some ''Todos'', msg_text = Some ''sai da sala...'',
                    msg_type = Some ''status'', msg_time = now i\<rparr>)
         (enumerate 0 (filter (\<lambda>p. lastStatus p \<le> Date_now - 10000) (participants d)))"

text \<open>A room with two participants and no message, on a store that answers every call.\<close>

definition room :: db where
  "room = \<lparr>participants = [\<lparr>name = Some ''ana'', lastStatus = 1000\<rparr>,
                            \<lparr>name = Some ''bia'', lastStatus = 2000\<rparr>],
           messages = [], faults = [], trace = []\<rparr>"

text \<open>The same room on a store whose third call rejects.\<close>

definition room_third_rejects :: db where
  "room_third_rejects = room\<lparr>faults := [False, False, True]\<rparr>"

text \<open>
  A store with six messages, five of them for ana to read: the third is a private message
  between bia and caio.
\<close>

definition chat :: db where
  "chat = room\<lparr>messages :=
     [\<lparr>msg_from = Some ''bia'', msg_to = Some ''Todos'', msg_text = Some ''oi'', msg_type = Some ''message'',
       msg_time = ''10:00:01''\<rparr>,
      \<lparr>msg_from = Some ''ana'', msg_to = Some ''bia'', msg_text = Some ''ola'', msg_type = Some ''private_message'',
       msg_time = ''10:00:02''\<rparr>,
      \<lparr>msg_from = Some ''bia'', msg_to = Some ''caio'', msg_text = Some ''segredo'',
       msg_type = Some ''private_message'', msg_time = ''10:00:03''\<rparr>,
      \<lparr>msg_from = Some ''bia'', msg_to = Some ''ana'', msg_text = Some ''tudo bem?'',
       msg_type = Some ''private_message'', msg_time = ''10:00:04''\<rparr>,
      \<lparr>msg_from = Some ''caio'', msg_to = Some ''Todos'', msg_text = Some ''entra na sala...'',
       msg_type = Some ''status'', msg_time = ''10:00:05''\<rparr>,
      \<lparr>msg_from = Some ''ana'', msg_to = Some ''Todos'', msg_text = Some ''tchau'', msg_type = Some ''message'',
       msg_time = ''10:00:06''\<rparr>]\<rparr>"

section \<open>The store calls\<close>

lemma rejects_healthy [simp]: "healthy d \<Longrightarrow> \<not> rejects d"
  by (auto simp: healthy_def rejects_def split: list.splits)

lemma healthy_called [simp]: "healthy d \<Longrightarrow> healthy (called c d)"
  by (cases "faults d") (auto simp: healthy_def called_def)

lemma healthy_update [simp]:
  "healthy (d\<lparr>participants := ps\<rparr>) = healthy d"
  "healthy (d\<lparr>messages := ms\<rparr>) = healthy d"
  by (simp_all add: healthy_def)

lemma rejects_update [simp]:
  "rejects (d\<lparr>participants := ps\<rparr>) = rejects d"
  "rejects (d\<lparr>messages := ms\<rparr>) = rejects d"
  by (simp_all add: rejects_def)

lemma called_fields [simp]:
  "participants (called c d) = participants d"
  "messages (called c d) = messages d"
  "trace (called c d) = trace d @ [c]"
  "faults (called c d) = tl (faults d)"
  by (simp_all add: called_def)

lemma enumerate_Nil_iff [simp]: "enumerate n xs = [] \<longleftrightarrow> xs = []"
  by (cases xs) simp_all

lemma find_name_None [simp]:
  "find (\<lambda>p. name p = u) ps = None \<longleftrightarrow> u \<notin> name ` set ps"
  by (auto simp: find_None_iff)

lemma find_name_Some:
  "find (\<lambda>p. name p = u) ps = Some q \<Longrightarrow> u \<in> name ` set ps"
  by (auto simp: find_Some_iff)

section \<open>Validated bodies\<close>

lemma validate_None: "validate sch body abortEarly = None \<longleftrightarrow> violations sch body = []"
  by (simp add: validate_def Let_def)


text \<open>
  The copy has the body's own properties, but for \<^verbatim>\<open>__proto__\<close>: a key of the schema that
  the body has is checked on the body's own value.
\<close>

lemma map_of_without_proto:
  "key \<noteq> ''__proto__'' \<Longrightarrow>
     map_of (filter (\<lambda>(k, v). k \<noteq> ''__proto__'') kvs) key = map_of kvs key"
  by (induction kvs) auto

lemma clone_get_own:
  "key \<noteq> ''__proto__'' \<Longrightarrow> map_of kvs key = Some v \<Longrightarrow> clone_get kvs key = Some v"
  by (simp add: clone_get_def map_of_without_proto)

lemma key_reports_kept:
  assumes "(key, ks) \<in> set sch"
  shows "set (validate_key key ks (clone_get kvs key)) \<subseteq> set (violations sch (JObj kvs))"
  using assms by (force simp: violations_def)

text \<open>
  What the handlers read in a body that has passed the validation is a string that is not
  empty, or undefined.
\<close>

lemma valid_key:
  assumes "validate sch body False = None" and "(key, ks) \<in> set sch"
    and "key \<noteq> ''__proto__''"
  shows "property body key = None
       \<or> (\<exists>s. property body key = Some (JStr s)
              \<and> (case only ks of None \<Rightarrow> s \<noteq> [] | Some valids \<Rightarrow> s \<in> set valids))"
proof (cases body)
  case (JObj kvs)
  with assms(1) have "violations sch (JObj kvs) = []"
    by (simp add: validate_None)
  with key_reports_kept[OF assms(2), of kvs]
  have none: "validate_key key ks (clone_get kvs key) = []"
    by simp
  show ?thesis
  proof (cases "map_of kvs key")
    case None
    with JObj show ?thesis
      by (simp add: property_def)
  next
    case (Some v)
    with assms(3) have "clone_get kvs key = Some v"
      by (simp add: clone_get_own)
    with none have "validate_key key ks (Some v) = []"
      by simp
    then have "\<exists>s. v = JStr s
              \<and> (case only ks of None \<Rightarrow> s \<noteq> [] | Some valids \<Rightarrow> s \<in> set valids)"
      by (auto simp: validate_key_def string_base_def split: option.splits json.splits if_splits)
    with JObj Some show ?thesis
      by (simp add: property_def)
  qed
qed (use assms(1) in \<open>simp_all add: validate_None violations_def\<close>)

lemma valid_name:
  assumes "validate schemaName body False = None"
  shows "property body ''name'' = None
       \<or> (\<exists>n. n \<noteq> [] \<and> property body ''name'' = Some (JStr n))"
  using valid_key[OF assms, of "''name''" "\<lparr>only = None\<rparr>"]
  by (auto simp: schemaName_def)

lemma valid_message:
  assumes "validate schemaMessage body False = None"
  shows "(property body ''to'' = None
          \<or> (\<exists>t. t \<noteq> [] \<and> property body ''to'' = Some (JStr t)))
       \<and> (property body ''text'' = None
          \<or> (\<exists>x. x \<noteq> [] \<and> property body ''text'' = Some (JStr x)))
       \<and> (property body ''type'' = None
          \<or> (\<exists>y. y \<in> {''message'', ''private_message''}
                \<and> property body ''type'' = Some (JStr y)))"
  using valid_key[OF assms, of "''to''" "\<lparr>only = None\<rparr>"]
    valid_key[OF assms, of "''text''" "\<lparr>only = None\<rparr>"]
    valid_key[OF assms, of "''type''" "\<lparr>only = Some [''message'', ''private_message'']\<rparr>"]
  by (auto simp: schemaMessage_def)

lemma ana_valid: "validate schemaName (JObj [(''name'', JStr ''ana'')]) False = None"
  by (simp add: validate_def violations_def schemaName_def validate_key_def string_base_def
      clone_get_def clone_keys_def)

lemma caio_valid: "validate schemaName (JObj [(''name'', JStr ''caio'')]) False = None"
  by (simp add: validate_def violations_def schemaName_def validate_key_def string_base_def
      clone_get_def clone_keys_def)

lemma oi_valid:
  "validate schemaMessage
     (JObj [(''to'', JStr ''bia''), (''text'', JStr ''oi''), (''type'', JStr ''private_message'')])
     False = None"
  by (simp add: validate_def violations_def schemaMessage_def validate_key_def string_base_def
      clone_get_def clone_keys_def)

section \<open>The names stay unique\<close>

text \<open>
  Every handler and the reaper keep the names of the participants unique, whatever the
  store answers: a registration inserts a name only after the lookup found nobody of that
  name, a heartbeat changes no name, and a sweep only removes participants.
\<close>

lemma names_set_first: "map name (set_first u t ps) = map name ps"
  by (induction ps) simp_all

lemma unique_names_post_participants:
  "unique_names d \<Longrightarrow> post_participants body Date_now now d = (r, d') \<Longrightarrow> unique_names d'"
  by (auto simp: post_participants_def findOne_name_def
      insertOne_participant_def insertOne_message_def unique_names_def
      split: option.splits if_splits)

lemma unique_names_post_messages:
  "unique_names d \<Longrightarrow> post_messages body user now d = (r, d') \<Longrightarrow> unique_names d'"
  by (auto simp: post_messages_def findOne_name_def insertOne_message_def unique_names_def
      split: option.splits if_splits)

lemma unique_names_get_participants:
  "unique_names d \<Longrightarrow> get_participants d = (r, d') \<Longrightarrow> unique_names d'"
  by (auto simp: get_participants_def find_participants_def unique_names_def split: if_splits)

lemma unique_names_get_messages:
  "unique_names d \<Longrightarrow> get_messages limit user d = (r, d') \<Longrightarrow> unique_names d'"
  by (auto simp: get_messages_def find_messages_def unique_names_def
      split: option.splits if_splits sum.splits)

lemma unique_names_post_status:
  "unique_names d \<Longrightarrow> post_status user Date_now d = (r, d') \<Longrightarrow> unique_names d'"
  by (auto simp: post_status_def findOne_name_def updateOne_lastStatus_def unique_names_def
      names_set_first split: option.splits if_splits)

lemma unique_names_removeInactiveUsers:
  "unique_names d \<Longrightarrow> removeInactiveUsers Date_now now d = (logged, d') \<Longrightarrow> unique_names d'"
  by (auto simp: removeInactiveUsers_def find_participants_def insertMany_messages_def
      deleteMany_names_def Let_def unique_names_def distinct_map_filter split: if_splits)

lemma one_of_that_name:
  "distinct (map name ps) \<Longrightarrow> n \<in> name ` set ps \<Longrightarrow> length (filter (\<lambda>p. name p = n) ps) = 1"
proof (induction ps)
  case Nil
  then show ?case by simp
next
  case (Cons p ps)
  show ?case
  proof (cases "name p = n")
    case True
    with Cons.prems have "n \<notin> name ` set ps"
      by simp
    then have "\<forall>x \<in> set ps. name x \<noteq> n"
      by blast
    then have "filter (\<lambda>p. name p = n) ps = []"
      by (simp add: filter_empty_conv)
    with True show ?thesis by simp
  next
    case False
    with Cons show ?thesis by auto
  qed
qed

lemma filter_out_names:
  assumes "distinct (map name ps)"
  shows "filter (\<lambda>p. name p \<notin> name ` {x \<in> set ps. Q x}) ps = filter (\<lambda>p. \<not> Q p) ps"
proof (rule filter_cong[OF refl])
  fix p assume p: "p \<in> set ps"
  from assms have inj: "inj_on name (set ps)" by (simp add: distinct_map)
  show "(name p \<notin> name ` {x \<in> set ps. Q x}) = (\<not> Q p)"
  proof
    assume "name p \<notin> name ` {x \<in> set ps. Q x}"
    with p show "\<not> Q p" by auto
  next
    assume nq: "\<not> Q p"
    show "name p \<notin> name ` {x \<in> set ps. Q x}"
    proof
      assume "name p \<in> name ` {x \<in> set ps. Q x}"
      then obtain q where q: "q \<in> set ps" "Q q" "name q = name p" by auto
      with inj p have "q = p" by (auto dest: inj_onD)
      with q nq show False by simp
    qed
  qed
qed

section \<open>The reaper removes the inactive participants\<close>

lemma sweep_healthy:
  assumes "healthy d" "unique_names d" "removeInactiveUsers t now d = (logged, d')"
  shows "logged = [] \<and>
     participants d' = filter (\<lambda>p. \<not> lastStatus p \<le> t - 10000) (participants d) \<and>
     messages d' = messages d @ departures t now d"
  using assms
  by (auto simp add: removeInactiveUsers_def find_participants_def insertMany_messages_def
      deleteMany_names_def Let_def unique_names_def departures_def
      filter_out_names filter_empty_conv filter_id_conv
      split: if_splits)

lemma set_first_hit:
  "find (\<lambda>p. name p = u) ps = Some q \<Longrightarrow>
   \<exists>p \<in> set (set_first u t ps). name p = u \<and> lastStatus p = t"
  by (induction ps) (auto split: if_splits)

lemma beat_sets_lastStatus:
  "post_status u t0 d0 = (r, d) \<Longrightarrow> status r = 200 \<Longrightarrow>
    \<exists>p \<in> set (participants d). name p = u \<and> lastStatus p = t0"
  by (auto simp: post_status_def findOne_name_def updateOne_lastStatus_def
      split: if_splits option.splits intro: set_first_hit)

lemma room_beat:
  "post_status (Some ''bia'') 15000 room =
     (\<lparr>status = 200, sent = Status_text\<rparr>,
      \<lparr>participants = [\<lparr>name = Some ''ana'', lastStatus = 1000\<rparr>,
                        \<lparr>name = Some ''bia'', lastStatus = 15000\<rparr>],
        messages = [], faults = [],
        trace = [FindOne_participants, UpdateOne_participants]\<rparr>)"
  by (simp add: room_def post_status_def findOne_name_def updateOne_lastStatus_def
      rejects_def called_def)

text \<open>
  C1. A sweep whose store calls succeed, on participants with unique names, removes exactly
  the participants whose \<open>lastStatus\<close> is at most \<open>Date_now - 10000\<close>, and appends for each
  of them, in order, one message with \<open>from\<close> the participant's name, \<open>to\<close> "Todos", \<open>text\<close>
  "sai da sala..." and \<open>type\<close> "status". A participant whose heartbeat was answered with 200
  less than 10000 milliseconds before the sweep is still there, with the \<open>lastStatus\<close> of
  that heartbeat.
\<close>

theorem sweep_removes_exactly_the_inactive:
  assumes "unique_names d" and "healthy d"
    and "removeInactiveUsers Date_now now d = (logged, d')"
  shows "participants d' = filter (\<lambda>p. \<not> lastStatus p \<le> Date_now - 10000) (participants d)
     \<and> messages d' = messages d @
         map (\<lambda>(i, p). \<lparr>msg_from = name p, msg_to = Some ''Todos'', msg_text = Some ''sai da sala...'',
                        msg_type = Some ''status'', msg_time = now i\<rparr>)
             (enumerate 0 (filter (\<lambda>p. lastStatus p \<le> Date_now - 10000) (participants d)))
     \<and> (\<forall>user t d0 r. post_status user t d0 = (r, d) \<and> status r = 200
            \<and> Date_now - 10000 < t
          \<longrightarrow> (\<exists>p \<in> set (participants d'). name p = user \<and> lastStatus p = t))"
proof -
  from sweep_healthy[OF assms(2,1,3)]
  have ps: "participants d' = filter (\<lambda>p. \<not> lastStatus p \<le> Date_now - 10000) (participants d)"
    and ms: "messages d' = messages d @ departures Date_now now d"
    by simp_all
  have "\<exists>p \<in> set (participants d'). name p = user \<and> lastStatus p = t"
    if "post_status user t d0 = (r, d)" "status r = 200" "Date_now - 10000 < t"
    for user t d0 r
  proof -
    from beat_sets_lastStatus[OF that(1,2)]
    obtain p where "p \<in> set (participants d)" "name p = user" "lastStatus p = t" by blast
    with that(3) show ?thesis unfolding ps by auto
  qed
  with ps ms show ?thesis unfolding departures_def by blast
qed

theorem sweep_removes_exactly_the_inactive_witness:
  "unique_names (snd (post_status (Some ''bia'') 15000 room))
   \<and> healthy (snd (post_status (Some ''bia'') 15000 room))
   \<and> status (fst (post_status (Some ''bia'') 15000 room)) = 200
   \<and> (20000 :: int) - 10000 < 15000
   \<and> participants (snd (removeInactiveUsers 20000 (\<lambda>i. ''10:00:20'')
                           (snd (post_status (Some ''bia'') 15000 room))))
       = [\<lparr>name = Some ''bia'', lastStatus = 15000\<rparr>]
   \<and> messages (snd (removeInactiveUsers 20000 (\<lambda>i. ''10:00:20'')
                           (snd (post_status (Some ''bia'') 15000 room))))
       = [\<lparr>msg_from = Some ''ana'', msg_to = Some ''Todos'', msg_text = Some ''sai da sala...'',
           msg_type = Some ''status'', msg_time = ''10:00:20''\<rparr>]"
proof -
  let ?d = "snd (post_status (Some ''bia'') 15000 room)"
  have u: "unique_names ?d" and h: "healthy ?d"
    by (simp_all add: room_beat unique_names_def healthy_def)
  have s: "removeInactiveUsers 20000 (\<lambda>i. ''10:00:20'') ?d =
             (fst (removeInactiveUsers 20000 (\<lambda>i. ''10:00:20'') ?d),
              snd (removeInactiveUsers 20000 (\<lambda>i. ''10:00:20'') ?d))"
    by simp
  show ?thesis
    using u h sweep_removes_exactly_the_inactive[OF u h s]
    by (simp add: room_beat enumerate_eq_zip)
qed

section \<open>A sweep inserts before it deletes\<close>






section \<open>Registration\<close>

lemma registered:
  assumes "validate schemaName body False = None"
    and "property body ''name'' = Some (JStr n)"
    and "Some n \<notin> name ` set (participants d)"
    and "healthy d"
    and "post_participants body Date_now now d = (r, d')"
  shows "status r = 201 \<and> healthy d'
       \<and> participants d' = participants d @ [\<lparr>name = Some n, lastStatus = Date_now\<rparr>]"
  using assms
  by (auto simp: post_participants_def findOne_name_def string_of_def
      insertOne_participant_def insertOne_message_def
      split: option.splits if_splits dest: find_name_Some)

lemma refused:
  assumes "validate schemaName body False = None"
    and "property body ''name'' = Some (JStr n)"
    and "Some n \<in> name ` set (participants d)"
    and "\<not> rejects d"
    and "post_participants body Date_now now d = (r, d')"
  shows "status r = 409 \<and> participants d' = participants d"
proof -
  from assms(3) have "find (\<lambda>p. name p = Some n) (participants d) \<noteq> None"
    by simp
  with assms(1,2,4,5) show ?thesis
    by (auto simp: post_participants_def findOne_name_def string_of_def
        split: option.splits if_splits)
qed

text \<open>
  Registering a name twice in a row, on a store that answers: the first request is
  answered 201, the second 409, and the name is held once.
\<close>

lemma registering_twice:
  assumes "validate schemaName body False = None"
    and "property body ''name'' = Some (JStr n)"
    and "Some n \<notin> name ` set (participants d)"
    and "healthy d"
    and "post_participants body t1 now1 d = (r1, d1)"
    and "post_participants body t2 now2 d1 = (r2, d2)"
  shows "status r1 = 201 \<and> status r2 = 409
       \<and> length (filter (\<lambda>p. name p = Some n) (participants d2)) = 1"
proof -
  from registered[OF assms(1-5)]
  have 1: "status r1 = 201" and h: "healthy d1"
    and p: "participants d1 = participants d @ [\<lparr>name = Some n, lastStatus = t1\<rparr>]"
    by simp_all
  from p have m: "Some n \<in> name ` set (participants d1)"
    by simp
  from h have "\<not> rejects d1"
    by simp
  from refused[OF assms(1,2) m this assms(6)]
  have 2: "status r2 = 409" and q: "participants d2 = participants d1"
    by simp_all
  note q
  moreover from assms(3) have "filter (\<lambda>p. name p = Some n) (participants d) = []"
    by (auto simp: filter_empty_conv image_iff)
  ultimately have "length (filter (\<lambda>p. name p = Some n) (participants d2)) = 1"
    using p by simp
  with 1 2 show ?thesis
    by simp
qed

text \<open>
  C3. A registration whose name is the name of a participant leaves both collections as
  they were, whatever the outcome, and the participants still hold that name exactly once.
  When the body passes the validation and the store answers the lookup, the response
  is 409.
\<close>

theorem taken_name_is_answered_409:
  assumes "property body ''name'' = Some (JStr n)"
    and "Some n \<in> name ` set (participants d)"
    and "unique_names d"
    and "post_participants body Date_now now d = (r, d')"
  shows "participants d' = participants d \<and> messages d' = messages d
       \<and> length (filter (\<lambda>p. name p = Some n) (participants d')) = 1
       \<and> (validate schemaName body False = None \<and> \<not> rejects d \<longrightarrow> status r = 409)"
proof -
  from assms(2) have found: "find (\<lambda>p. name p = Some n) (participants d) \<noteq> None"
    by simp
  from assms(1,4) found have same: "participants d' = participants d \<and> messages d' = messages d"
    by (auto simp: post_participants_def findOne_name_def string_of_def
        split: option.splits if_splits)
  from assms(1,4) found
  have st: "validate schemaName body False = None \<and> \<not> rejects d \<longrightarrow> status r = 409"
    by (auto simp: post_participants_def findOne_name_def string_of_def
        split: option.splits if_splits)
  from one_of_that_name[of "participants d" "Some n"] assms(2,3) same
  have "length (filter (\<lambda>p. name p = Some n) (participants d')) = 1"
    by (simp add: unique_names_def)
  with same st show ?thesis by blast
qed

theorem taken_name_is_answered_409_witness:
  "status (fst (post_participants (JObj [(''name'', JStr ''ana'')]) 5000 ''10:00:05'' room)) = 409
   \<and> participants (snd (post_participants (JObj [(''name'', JStr ''ana'')]) 5000 ''10:00:05'' room))
       = [\<lparr>name = Some ''ana'', lastStatus = 1000\<rparr>, \<lparr>name = Some ''bia'', lastStatus = 2000\<rparr>]
   \<and> messages (snd (post_participants (JObj [(''name'', JStr ''ana'')]) 5000 ''10:00:05'' room))
       = []"
proof -
  let ?R = "post_participants (JObj [(''name'', JStr ''ana'')]) 5000 ''10:00:05'' room"
  have p: "property (JObj [(''name'', JStr ''ana'')]) ''name'' = Some (JStr ''ana'')"
    by (simp add: property_def)
  have m: "Some ''ana'' \<in> name ` set (participants room)"
    by (simp add: room_def)
  have u: "unique_names room"
    by (simp add: unique_names_def room_def)
  have e: "?R = (fst ?R, snd ?R)"
    by simp
  have ok: "\<not> rejects room"
    by (simp add: rejects_def room_def)
  from taken_name_is_answered_409[OF p m u e] ana_valid ok
  show ?thesis
    by (simp add: room_def)
qed

text \<open>
  C4, as amended. A valid registration with a name that no participant has, on a store that
  answers, appends the participant with \<open>lastStatus = Date_now\<close>, appends one message with
  \<open>from\<close> the name, \<open>to\<close> "Todos", \<open>text\<close> "entra na sala...", \<open>type\<close> "status" and \<open>time\<close>
  the formatted time, and responds 201. The text of the message does not hold the name.
\<close>

theorem registration_inserts_participant_and_entry_message:
  assumes "validate schemaName body False = None"
    and "property body ''name'' = Some (JStr n)"
    and "Some n \<notin> name ` set (participants d)"
    and "healthy d"
    and "post_participants body Date_now now d = (r, d')"
  shows "status r = 201
       \<and> participants d' = participants d @ [\<lparr>name = Some n, lastStatus = Date_now\<rparr>]
       \<and> messages d' = messages d @
            [\<lparr>msg_from = Some n, msg_to = Some ''Todos'', msg_text = Some ''entra na sala...'',
              msg_type = Some ''status'', msg_time = now\<rparr>]"
  using assms
  by (auto simp: post_participants_def findOne_name_def string_of_def
      insertOne_participant_def insertOne_message_def
      split: option.splits if_splits dest: find_name_Some)

theorem registration_inserts_participant_and_entry_message_witness:
  "post_participants (JObj [(''name'', JStr ''caio'')]) 5000 ''10:00:05'' room =
     (\<lparr>status = 201, sent = Status_text\<rparr>,
      \<lparr>participants = [\<lparr>name = Some ''ana'', lastStatus = 1000\<rparr>,
                        \<lparr>name = Some ''bia'', lastStatus = 2000\<rparr>,
                        \<lparr>name = Some ''caio'', lastStatus = 5000\<rparr>],
        messages = [\<lparr>msg_from = Some ''caio'', msg_to = Some ''Todos'', msg_text = Some ''entra na sala...'',
                     msg_type = Some ''status'', msg_time = ''10:00:05''\<rparr>],
        faults = [],
        trace = [FindOne_participants, InsertOne_participants, InsertOne_messages]\<rparr>)"
proof -
  let ?R = "post_participants (JObj [(''name'', JStr ''caio'')]) 5000 ''10:00:05'' room"
  have p: "property (JObj [(''name'', JStr ''caio'')]) ''name'' = Some (JStr ''caio'')"
    by (simp add: property_def)
  have m: "Some ''caio'' \<notin> name ` set (participants room)"
    by (simp add: room_def)
  have h: "healthy room"
    by (simp add: healthy_def room_def)
  have e: "?R = (fst ?R, snd ?R)"
    by simp
  have f: "faults (snd ?R) = [] \<and> trace (snd ?R) =
             [FindOne_participants, InsertOne_participants, InsertOne_messages]
           \<and> sent (fst ?R) = Status_text"
    by (simp add: post_participants_def caio_valid findOne_name_def string_of_def
        property_def insertOne_participant_def insertOne_message_def rejects_def called_def
        room_def)
  from registration_inserts_participant_and_entry_message[OF caio_valid p m h e] f
  have "fst ?R = \<lparr>status = 201, sent = Status_text\<rparr>"
    and "snd ?R = \<lparr>participants = [\<lparr>name = Some ''ana'', lastStatus = 1000\<rparr>,
                        \<lparr>name = Some ''bia'', lastStatus = 2000\<rparr>,
                        \<lparr>name = Some ''caio'', lastStatus = 5000\<rparr>],
        messages = [\<lparr>msg_from = Some ''caio'', msg_to = Some ''Todos'', msg_text = Some ''entra na sala...'',
                     msg_type = Some ''status'', msg_time = ''10:00:05''\<rparr>],
        faults = [],
        trace = [FindOne_participants, InsertOne_participants, InsertOne_messages]\<rparr>"
    by (simp_all add: room_def)
  then show ?thesis
    by (simp add: prod_eq_iff)
qed

text \<open>
  C4, as stated, asks for the message "caio entra na sala..." when caio registers. The
  handler answers 201 and stores the text "entra na sala...": the name is in \<open>from\<close> only.
\<close>

theorem registration_message_text_counterexample:
  "status (fst (post_participants (JObj [(''name'', JStr ''caio'')]) 5000 ''10:00:05'' room)) = 201
   \<and> map msg_text
        (messages (snd (post_participants (JObj [(''name'', JStr ''caio'')]) 5000 ''10:00:05'' room)))
       = [Some ''entra na sala...'']
   \<and> map msg_text
        (messages (snd (post_participants (JObj [(''name'', JStr ''caio'')]) 5000 ''10:00:05'' room)))
       \<noteq> [Some ''caio entra na sala...'']"
  by (simp add: post_participants_def caio_valid findOne_name_def string_of_def
      property_def insertOne_participant_def insertOne_message_def rejects_def called_def
      room_def)

text \<open>
  C10. The participant is inserted before the entry message. When the store answers the
  lookup and the first insert and rejects the second, the response is 500 and the
  participant is registered all the same, with no entry message.
\<close>

theorem registration_is_not_atomic:
  assumes "validate schemaName body False = None"
    and "property body ''name'' = Some (JStr n)"
    and "Some n \<notin> name ` set (participants d)"
    and "faults d = False # False # True # fs"
    and "post_participants body Date_now now d = (r, d')"
  shows "status r = 500 \<and> sent r = Thrown StoreError
       \<and> participants d' = participants d @ [\<lparr>name = Some n, lastStatus = Date_now\<rparr>]
       \<and> messages d' = messages d
       \<and> trace d' = trace d @ [FindOne_participants, InsertOne_participants, InsertOne_messages]"
  using assms
  by (auto simp: post_participants_def findOne_name_def string_of_def
      insertOne_participant_def insertOne_message_def rejects_def called_def
      split: option.splits if_splits dest: find_name_Some)

theorem registration_is_not_atomic_witness:
  "post_participants (JObj [(''name'', JStr ''caio'')]) 5000 ''10:00:05'' room_third_rejects =
     (\<lparr>status = 500, sent = Thrown StoreError\<rparr>,
      \<lparr>participants = [\<lparr>name = Some ''ana'', lastStatus = 1000\<rparr>,
                        \<lparr>name = Some ''bia'', lastStatus = 2000\<rparr>,
                        \<lparr>name = Some ''caio'', lastStatus = 5000\<rparr>],
        messages = [], faults = [],
        trace = [FindOne_participants, InsertOne_participants, InsertOne_messages]\<rparr>)"
proof -
  let ?R = "post_participants (JObj [(''name'', JStr ''caio'')]) 5000 ''10:00:05''
              room_third_rejects"
  have p: "property (JObj [(''name'', JStr ''caio'')]) ''name'' = Some (JStr ''caio'')"
    by (simp add: property_def)
  have m: "Some ''caio'' \<notin> name ` set (participants room_third_rejects)"
    by (simp add: room_def room_third_rejects_def)
  have f: "faults room_third_rejects = False # False # True # []"
    by (simp add: room_third_rejects_def)
  have e: "?R = (fst ?R, snd ?R)"
    by simp
  have g: "faults (snd ?R) = []"
    by (simp add: post_participants_def caio_valid findOne_name_def string_of_def
        property_def insertOne_participant_def insertOne_message_def rejects_def called_def
        room_def room_third_rejects_def)
  from registration_is_not_atomic[OF caio_valid p m f e] g
  have "fst ?R = \<lparr>status = 500, sent = Thrown StoreError\<rparr>"
    and "snd ?R = \<lparr>participants = [\<lparr>name = Some ''ana'', lastStatus = 1000\<rparr>,
                        \<lparr>name = Some ''bia'', lastStatus = 2000\<rparr>,
                        \<lparr>name = Some ''caio'', lastStatus = 5000\<rparr>],
        messages = [], faults = [],
        trace = [FindOne_participants, InsertOne_participants, InsertOne_messages]\<rparr>"
    by (simp_all add: room_def room_third_rejects_def)
  then show ?thesis
    by (simp add: prod_eq_iff)
qed

section \<open>Reading the messages\<close>

text \<open>
  The Number value of some \<^verbatim>\<open>limit\<close> parameters. Besides plain decimal numerals, the
  handler takes for a whole number of at least 1 an exponent form, blanks around a numeral
  with a fraction of zeros, a hexadecimal numeral, an array of one such string and a
  decimal fraction that rounds to a whole double, above or below it. It refuses the empty
  string (zero), a fraction, an array of two and an object. For an object with an own
  \<^verbatim>\<open>toString\<close> property, alone or in an array, there is no Number: the conversion throws.
\<close>

lemma number_of_abc: "ToNumber (QString ''abc'') = Inr NaN"
  by code_simp

lemma number_of_2: "ToNumber (QString ''2'') = Inr (Finite 2)"
  by code_simp

lemma number_of_1e2: "ToNumber (QString ''1e2'') = Inr (Finite 100)"
  by code_simp

lemma number_of_5_0: "ToNumber (QString '' 5.0 '') = Inr (Finite 5)"
  by code_simp

lemma number_of_0x10: "ToNumber (QString ''0x10'') = Inr (Finite 16)"
  by code_simp

lemma number_of_empty: "ToNumber (QString []) = Inr (Finite 0)"
  by code_simp

lemma number_of_2_5: "ToNumber (QString ''2.5'') = Inr (Finite (5 / 2))"
  by code_simp

lemma number_of_array: "ToNumber (QArray [QString ''3'']) = Inr (Finite 3)"
  by code_simp

lemma number_of_pair: "ToNumber (QArray [QString ''3'', QString ''4'']) = Inr NaN"
  by code_simp

lemma number_of_object: "ToNumber (QObject [(''a'', QString ''3'')]) = Inr NaN"
  by code_simp

lemma number_of_valueOf: "ToNumber (QObject [(''valueOf'', QString ''3'')]) = Inr NaN"
  by code_simp

lemma number_of_near_1: "ToNumber (QString ''1.00000000000000000001'') = Inr (Finite 1)"
  by code_simp

lemma number_of_below_1: "ToNumber (QString ''0.99999999999999995'') = Inr (Finite 1)"
  by code_simp

lemma number_of_toString: "ToNumber (QObject [(''toString'', QString ''1'')]) = Inl TypeError"
  by code_simp

lemma number_of_toString_in_array:
  "ToNumber (QArray [QObject [(''toString'', QString ''1'')]]) = Inl TypeError"
  by code_simp

lemma whole_at_least_one:
  "isInteger x \<and> \<not> less_than x (Finite 1) \<longleftrightarrow> (\<exists>n::nat. 1 \<le> n \<and> x = Finite (of_nat n))"
proof
  assume a: "isInteger x \<and> \<not> less_than x (Finite 1)"
  then obtain q where x: "x = Finite q" and w: "of_int \<lfloor>q\<rfloor> = q"
    by (auto simp: isInteger_def split: number.splits)
  from a x have "1 \<le> q" by simp
  then have fl: "1 \<le> \<lfloor>q\<rfloor>" by (simp add: le_floor_iff)
  then have "1 \<le> nat \<lfloor>q\<rfloor>"
    by linarith
  moreover from fl have "0 \<le> \<lfloor>q\<rfloor>"
    by linarith
  then have "of_nat (nat \<lfloor>q\<rfloor>) = (of_int \<lfloor>q\<rfloor> :: rat)"
    by (rule of_nat_nat)
  then have "of_nat (nat \<lfloor>q\<rfloor>) = q"
    using w by (rule trans)
  then have "x = Finite (of_nat (nat \<lfloor>q\<rfloor>))"
    by (simp only: x)
  ultimately show "\<exists>n::nat. 1 \<le> n \<and> x = Finite (of_nat n)"
    by blast
next
  assume "\<exists>n::nat. 1 \<le> n \<and> x = Finite (of_nat n)"
  then show "isInteger x \<and> \<not> less_than x (Finite 1)"
    by (auto simp: isInteger_def)
qed

lemma slice_last:
  assumes "1 \<le> n"
  shows "slice (Finite (- of_nat n)) xs = drop (length xs - n) xs"
proof -
  from assms have "\<not> (0::rat) \<le> - of_nat n" by simp
  moreover have "\<lceil>- (of_nat n :: rat)\<rceil> = - int n" by (simp add: ceiling_minus)
  moreover have "nat (max (int (length xs) - int n) 0) = length xs - n" by simp
  ultimately show ?thesis using assms by (simp add: slice_def)
qed

lemma get_messages_200:
  assumes "get_messages limit user d = (Inr r, d')" and "status r = 200"
  shows "messages d' = messages d \<and> participants d' = participants d
       \<and> (case limit of
             None \<Rightarrow>
               sent r = Messages (filter (\<lambda>m. msg_to m = user \<or> msg_to m = Some ''Todos''
                                              \<or> msg_from m = user) (messages d))
           | Some l \<Rightarrow>
               (\<exists>x. ToNumber l = Inr x
                  \<and> isInteger x \<and> \<not> less_than x (Finite 1)
                  \<and> sent r = Messages (slice (negate x)
                       (filter (\<lambda>m. msg_to m = user \<or> msg_to m = Some ''Todos''
                                     \<or> msg_from m = user) (messages d)))))"
  using assms
  by (auto simp: get_messages_def find_messages_def split: option.splits if_splits sum.splits)

text \<open>
  C5. A \<^verbatim>\<open>GET /messages\<close> answered 200 changes nothing in the store. Without \<^verbatim>\<open>limit\<close> it
  sends the stored messages with \<open>to\<close> the reader, \<open>to\<close> "Todos" or \<open>from\<close> the reader, in
  the order of the store. With a \<^verbatim>\<open>limit\<close>, the limit is a whole number \<open>n\<close> of at least 1
  and what is sent is the end of that list: its last \<open>n\<close> messages, or all of them when it
  has fewer.
\<close>

theorem get_messages_sends_the_visible_messages:
  assumes "get_messages limit user d = (Inr r, d')" and "status r = 200"
  shows "messages d' = messages d \<and> participants d' = participants d
     \<and> (limit = None \<longrightarrow>
          sent r = Messages (filter (\<lambda>m. msg_to m = user \<or> msg_to m = Some ''Todos''
                                         \<or> msg_from m = user) (messages d)))
     \<and> (\<forall>l. limit = Some l \<longrightarrow>
          (\<exists>(n::nat) before sent_list.
              1 \<le> n \<and> ToNumber l = Inr (Finite (of_nat n))
              \<and> filter (\<lambda>m. msg_to m = user \<or> msg_to m = Some ''Todos''
                             \<or> msg_from m = user) (messages d) = before @ sent_list
              \<and> length sent_list = min n (length (before @ sent_list))
              \<and> sent r = Messages sent_list))"
proof -
  let ?vis = "filter (\<lambda>m. msg_to m = user \<or> msg_to m = Some ''Todos''
                          \<or> msg_from m = user) (messages d)"
  note g = get_messages_200[OF assms]
  have "\<exists>(n::nat) before sent_list.
          1 \<le> n \<and> ToNumber l = Inr (Finite (of_nat n)) \<and> ?vis = before @ sent_list
          \<and> length sent_list = min n (length (before @ sent_list))
          \<and> sent r = Messages sent_list"
    if "limit = Some l" for l
  proof -
    from g that obtain x where x: "ToNumber l = Inr x"
      and w: "isInteger x \<and> \<not> less_than x (Finite 1)"
      and s: "sent r = Messages (slice (negate x) ?vis)"
      by auto
    from w obtain n :: nat where n: "1 \<le> n" "x = Finite (of_nat n)"
      unfolding whole_at_least_one by blast
    from s n have s': "sent r = Messages (drop (length ?vis - n) ?vis)"
      by (simp add: slice_last)
    have "?vis = take (length ?vis - n) ?vis @ drop (length ?vis - n) ?vis"
      by simp
    moreover have "length (drop (length ?vis - n) ?vis)
        = min n (length (take (length ?vis - n) ?vis @ drop (length ?vis - n) ?vis))"
      by (simp del: append_take_drop_id)
    ultimately show ?thesis
      using n x s' by blast
  qed
  with g show ?thesis
    by (cases limit) simp_all
qed

theorem get_messages_sends_the_visible_messages_witness:
  "fst (get_messages (Some (QString ''2'')) (Some ''ana'') chat) =
     Inr \<lparr>status = 200,
          sent = Messages
           [\<lparr>msg_from = Some ''caio'', msg_to = Some ''Todos'',
             msg_text = Some ''entra na sala...'', msg_type = Some ''status'',
             msg_time = ''10:00:05''\<rparr>,
            \<lparr>msg_from = Some ''ana'', msg_to = Some ''Todos'', msg_text = Some ''tchau'',
             msg_type = Some ''message'', msg_time = ''10:00:06''\<rparr>]\<rparr>
   \<and> length (filter (\<lambda>m. msg_to m = Some ''ana'' \<or> msg_to m = Some ''Todos''
                            \<or> msg_from m = Some ''ana'') (messages chat)) = 5
   \<and> messages (snd (get_messages (Some (QString ''2'')) (Some ''ana'') chat)) = messages chat"
proof -
  let ?R = "get_messages (Some (QString ''2'')) (Some ''ana'') chat"
  let ?r = "\<lparr>status = 200,
          sent = Messages
           [\<lparr>msg_from = Some ''caio'', msg_to = Some ''Todos'',
             msg_text = Some ''entra na sala...'', msg_type = Some ''status'',
             msg_time = ''10:00:05''\<rparr>,
            \<lparr>msg_from = Some ''ana'', msg_to = Some ''Todos'', msg_text = Some ''tchau'',
             msg_type = Some ''message'', msg_time = ''10:00:06''\<rparr>]\<rparr>"
  have v: "fst ?R = Inr ?r"
    by (simp add: get_messages_def number_of_2 isInteger_def find_messages_def rejects_def
        slice_def chat_def room_def)
  then have e: "?R = (Inr ?r, snd ?R)"
    by (simp add: prod_eq_iff)
  have s: "status ?r = 200"
    by simp
  from get_messages_sends_the_visible_messages[OF e s] v
  show ?thesis
    by (simp add: chat_def room_def)
qed

text \<open>
  C6, as stated, has 422 for every \<^verbatim>\<open>limit\<close> that is present and is no positive
  integer. \<^verbatim>\<open>limit=0.99999999999999995\<close> is present and is below 1, and the answer is
  200 with the last message: the guard tests the double that unary plus makes of the
  parameter, and the double nearest to this fraction is 1. \<^verbatim>\<open>limit[toString]=1\<close> is
  present and is no integer, and there is no answer at all: the conversion throws in the
  guard, before the \<^verbatim>\<open>try\<close>.
\<close>

theorem get_messages_limit_counterexample:
  "StrUnsignedDecimalLiteral ''0.99999999999999995''
     = Some (99999999999999995 / 100000000000000000)
   \<and> (99999999999999995 / 100000000000000000 :: rat) < 1
   \<and> fst (get_messages (Some (QString ''0.99999999999999995'')) (Some ''ana'') chat) =
       Inr \<lparr>status = 200,
            sent = Messages
             [\<lparr>msg_from = Some ''ana'', msg_to = Some ''Todos'', msg_text = Some ''tchau'',
               msg_type = Some ''message'', msg_time = ''10:00:06''\<rparr>]\<rparr>
   \<and> fst (get_messages (Some (QObject [(''toString'', QString ''1'')])) (Some ''ana'') chat)
       = Inl TypeError"
proof -
  have "StrUnsignedDecimalLiteral ''0.99999999999999995''
     = Some (99999999999999995 / 100000000000000000)"
    by code_simp
  moreover have "(99999999999999995 / 100000000000000000 :: rat) < 1"
    by simp
  moreover have "fst (get_messages (Some (QString ''0.99999999999999995'')) (Some ''ana'') chat) =
       Inr \<lparr>status = 200,
            sent = Messages
             [\<lparr>msg_from = Some ''ana'', msg_to = Some ''Todos'', msg_text = Some ''tchau'',
               msg_type = Some ''message'', msg_time = ''10:00:06''\<rparr>]\<rparr>"
    by (simp add: get_messages_def number_of_below_1 isInteger_def find_messages_def rejects_def
        slice_def ceiling_minus chat_def room_def)
  moreover have
    "fst (get_messages (Some (QObject [(''toString'', QString ''1'')])) (Some ''ana'') chat)
       = Inl TypeError"
    by (simp add: get_messages_def number_of_toString)
  ultimately show ?thesis
    by simp
qed

text \<open>
  C6, as amended. For a \<^verbatim>\<open>limit\<close> that is absent, or that unary plus converts to a Number
  without throwing, \<^verbatim>\<open>GET /messages\<close> sends a response, and the response is 422 exactly
  when \<^verbatim>\<open>limit\<close> is present and that Number is not a whole number of at least 1. It then
  sends the fixed sentence about the parameter, no message list, and has made no call on
  the store.
\<close>

theorem get_messages_422_iff_number_of_limit_is_no_positive_integer:
  assumes "\<forall>l. limit = Some l \<longrightarrow> ToNumber l \<noteq> Inl TypeError"
  shows "\<exists>r d'. get_messages limit user d = (Inr r, d')
     \<and> (status r = 422
          \<longleftrightarrow> (\<exists>l. limit = Some l
                \<and> \<not> (\<exists>n::nat. 1 \<le> n \<and> ToNumber l = Inr (Finite (of_nat n)))))
     \<and> (status r = 422 \<longrightarrow> sent r = Limit_invalido \<and> d' = d)"
proof (cases limit)
  case None
  then show ?thesis
    by (cases "rejects d") (simp_all add: get_messages_def find_messages_def)
next
  case (Some l)
  with assms obtain x where x: "ToNumber l = Inr x"
    by (cases "ToNumber l") (auto intro: thrown.exhaust)
  show ?thesis
  proof (cases "\<exists>n::nat. 1 \<le> n \<and> x = Finite (of_nat n)")
    case True
    then have "isInteger x \<and> \<not> less_than x (Finite 1)"
      by (simp add: whole_at_least_one)
    with Some x True show ?thesis
      by (cases "rejects d") (simp_all add: get_messages_def find_messages_def)
  next
    case False
    then have "\<not> (isInteger x \<and> \<not> less_than x (Finite 1))"
      by (simp add: whole_at_least_one)
    with Some x False show ?thesis
      by (auto simp: get_messages_def)
  qed
qed

theorem get_messages_422_iff_number_of_limit_is_no_positive_integer_witness:
  "ToNumber (QString ''abc'') \<noteq> Inl TypeError
   \<and> get_messages (Some (QString ''abc'')) (Some ''ana'') chat =
       (Inr \<lparr>status = 422, sent = Limit_invalido\<rparr>, chat)"
proof -
  have h: "\<forall>l. Some (QString ''abc'') = Some l \<longrightarrow> ToNumber l \<noteq> Inl TypeError"
    by (simp add: number_of_abc)
  from get_messages_422_iff_number_of_limit_is_no_positive_integer
         [OF h, of "Some ''ana''" chat]
  obtain r d' where g: "get_messages (Some (QString ''abc'')) (Some ''ana'') chat = (Inr r, d')"
    and i: "status r = 422
          \<longleftrightarrow> (\<exists>l. Some (QString ''abc'') = Some l
                \<and> \<not> (\<exists>n::nat. 1 \<le> n \<and> ToNumber l = Inr (Finite (of_nat n))))"
    and j: "status r = 422 \<longrightarrow> sent r = Limit_invalido \<and> d' = chat"
    by blast
  from i have "status r = 422"
    by (simp add: number_of_abc)
  with j have "r = \<lparr>status = 422, sent = Limit_invalido\<rparr>" and "d' = chat"
    by simp_all
  with g show ?thesis
    by (simp add: number_of_abc)
qed

section \<open>The heartbeat\<close>

lemma set_first_split:
  "find (\<lambda>p. name p = u) ps = Some q \<Longrightarrow>
   \<exists>pre post. ps = pre @ q # post \<and> (\<forall>x \<in> set pre. name x \<noteq> u)
      \<and> name q = u \<and> set_first u t ps = pre @ q\<lparr>lastStatus := t\<rparr> # post"
proof (induction ps)
  case Nil
  then show ?case by simp
next
  case (Cons p ps)
  show ?case
  proof (cases "name p = u")
    case True
    with Cons.prems have "q = p" by simp
    with True have "p # ps = [] @ q # ps \<and> (\<forall>x \<in> set []. name x \<noteq> u)
      \<and> name q = u \<and> set_first u t (p # ps) = [] @ q\<lparr>lastStatus := t\<rparr> # ps"
      by simp
    then show ?thesis by blast
  next
    case False
    with Cons.prems have "find (\<lambda>p. name p = u) ps = Some q" by simp
    from Cons.IH[OF this] obtain pre post where
      s: "ps = pre @ q # post" "\<forall>x \<in> set pre. name x \<noteq> u" "name q = u"
         "set_first u t ps = pre @ q\<lparr>lastStatus := t\<rparr> # post"
      by blast
    with False have "p # ps = (p # pre) @ q # post
      \<and> (\<forall>x \<in> set (p # pre). name x \<noteq> u) \<and> name q = u
      \<and> set_first u t (p # ps) = (p # pre) @ q\<lparr>lastStatus := t\<rparr> # post"
      by simp
    then show ?thesis by blast
  qed
qed

lemma beat_messages:
  "post_status user Date_now d = (r, d') \<Longrightarrow> messages d' = messages d"
  by (auto simp: post_status_def findOne_name_def updateOne_lastStatus_def
      split: if_splits option.splits)

lemma beat_status:
  "post_status user Date_now d = (r, d') \<Longrightarrow> status r \<in> {200, 404, 500}"
  by (auto simp: post_status_def findOne_name_def updateOne_lastStatus_def
      split: if_splits option.splits)

lemma beat_200:
  assumes "post_status user Date_now d = (r, d')" and "status r = 200"
  shows "\<exists>pre p post. participants d = pre @ p # post \<and> name p = user
        \<and> (\<forall>q \<in> set pre. name q \<noteq> user)
        \<and> participants d' = pre @ p\<lparr>lastStatus := Date_now\<rparr> # post"
proof -
  from assms obtain q where f: "find (\<lambda>p. name p = user) (participants d) = Some q"
    and p: "participants d' = set_first user Date_now (participants d)"
    by (auto simp: post_status_def findOne_name_def updateOne_lastStatus_def
        split: if_splits option.splits)
  from set_first_split[OF f, of Date_now] p show ?thesis
    by metis
qed

lemma beat_other:
  "post_status user Date_now d = (r, d') \<Longrightarrow> status r \<noteq> 200 \<Longrightarrow>
     participants d' = participants d"
  by (auto simp: post_status_def findOne_name_def updateOne_lastStatus_def
      split: if_splits option.splits)

lemma beat_unknown:
  assumes "post_status user Date_now d = (r, d')"
    and "user \<notin> name ` set (participants d)"
  shows "participants d' = participants d \<and> (\<not> rejects d \<longrightarrow> status r = 404)"
proof -
  from assms(2) have "find (\<lambda>p. name p = user) (participants d) = None"
    by simp
  with assms(1) show ?thesis
    by (auto simp: post_status_def findOne_name_def simp del: find_name_None split: if_splits)
qed

lemma beat_known:
  assumes "post_status user Date_now d = (r, d')"
    and "user \<in> name ` set (participants d)" and "healthy d"
  shows "status r = 200"
proof -
  from assms(2) have "find (\<lambda>p. name p = user) (participants d) \<noteq> None"
    by simp
  with assms(1,3) show ?thesis
    by (auto simp: post_status_def findOne_name_def updateOne_lastStatus_def
        split: if_splits option.splits)
qed

text \<open>
  C7. A heartbeat never touches the messages. Answered 200, it has replaced the first
  participant whose name is the \<^verbatim>\<open>user\<close> header by the same participant with
  \<open>lastStatus = Date_now\<close>, and nothing else; answered otherwise (404 or 500), it has left
  the participants as they were. For a user that is no participant the answer is 404 (500
  when the store rejects the lookup) and no participant is created; for a participant, on a
  store that answers, it is 200.
\<close>

theorem heartbeat_only_sets_lastStatus:
  assumes "post_status user Date_now d = (r, d')"
  shows "messages d' = messages d
     \<and> status r \<in> {200, 404, 500}
     \<and> (status r = 200 \<longrightarrow>
          (\<exists>pre p post. participants d = pre @ p # post \<and> name p = user
             \<and> (\<forall>q \<in> set pre. name q \<noteq> user)
             \<and> participants d' = pre @ p\<lparr>lastStatus := Date_now\<rparr> # post))
     \<and> (status r \<noteq> 200 \<longrightarrow> participants d' = participants d)
     \<and> (user \<notin> name ` set (participants d) \<longrightarrow>
          participants d' = participants d \<and> (\<not> rejects d \<longrightarrow> status r = 404))
     \<and> (user \<in> name ` set (participants d) \<and> healthy d \<longrightarrow> status r = 200)"
  using beat_messages[OF assms] beat_status[OF assms] beat_200[OF assms] beat_other[OF assms]
    beat_unknown[OF assms] beat_known[OF assms]
  by blast

theorem heartbeat_only_sets_lastStatus_witness:
  "post_status (Some ''bia'') 15000 room =
     (\<lparr>status = 200, sent = Status_text\<rparr>,
      \<lparr>participants = [\<lparr>name = Some ''ana'', lastStatus = 1000\<rparr>,
                        \<lparr>name = Some ''bia'', lastStatus = 15000\<rparr>],
        messages = [], faults = [],
        trace = [FindOne_participants, UpdateOne_participants]\<rparr>)
   \<and> status (fst (post_status (Some ''zeca'') 15000 room)) = 404
   \<and> participants (snd (post_status (Some ''zeca'') 15000 room)) = participants room"
proof -
  let ?R = "post_status (Some ''zeca'') 15000 room"
  have e: "?R = (fst ?R, snd ?R)"
    by simp
  have u: "Some ''zeca'' \<notin> name ` set (participants room)"
    by (simp add: room_def)
  have ok: "\<not> rejects room"
    by (simp add: rejects_def room_def)
  from heartbeat_only_sets_lastStatus[OF e] u ok
  have "status (fst ?R) = 404 \<and> participants (snd ?R) = participants room"
    by blast
  with room_beat show ?thesis
    by simp
qed

section \<open>Invalid bodies\<close>


text \<open>
  An own \<^verbatim>\<open>__proto__\<close> property that is a number is neither checked nor reported: with a
  name beside it the body is valid and the participant is registered. One that is an object
  lends its properties to the copy: the body passes the validation without a name of its
  own, and the handler, which reads the body, registers a participant whose name is null.
\<close>

lemma proto_is_not_reported:
  "violations schemaName (JObj [(''__proto__'', JNum 1), (''name'', JStr ''caio'')]) = []
   \<and> status (fst (post_participants
                    (JObj [(''__proto__'', JNum 1), (''name'', JStr ''caio'')])
                    5000 ''10:00:05'' room)) = 201
   \<and> participants (snd (post_participants
                    (JObj [(''__proto__'', JNum 1), (''name'', JStr ''caio'')])
                    5000 ''10:00:05'' room))
       = participants room @ [\<lparr>name = Some ''caio'', lastStatus = 5000\<rparr>]"
  by (simp add: post_participants_def validate_def violations_def schemaName_def
      validate_key_def string_base_def clone_get_def clone_keys_def property_def
      string_of_def findOne_name_def insertOne_participant_def insertOne_message_def
      rejects_def called_def room_def)

lemma proto_lends_its_properties:
  "violations schemaName (JObj [(''__proto__'', JObj [(''name'', JStr ''caio'')])]) = []
   \<and> status (fst (post_participants
                    (JObj [(''__proto__'', JObj [(''name'', JStr ''caio'')])])
                    5000 ''10:00:05'' room)) = 201
   \<and> participants (snd (post_participants
                    (JObj [(''__proto__'', JObj [(''name'', JStr ''caio'')])])
                    5000 ''10:00:05'' room))
       = participants room @ [\<lparr>name = None, lastStatus = 5000\<rparr>]"
  by (simp add: post_participants_def validate_def violations_def schemaName_def
      validate_key_def string_base_def clone_get_def clone_keys_def property_def
      string_of_def findOne_name_def insertOne_participant_def insertOne_message_def
      rejects_def called_def room_def)



section \<open>Messages from an unknown sender\<close>

text \<open>
  C9. A valid message whose \<^verbatim>\<open>user\<close> header is the name of no participant changes
  neither collection, and is answered 422 when the store answers the lookup. An absent
  header stands for the null name, which no participant has unless a body was registered
  that got its name from \<^verbatim>\<open>__proto__\<close>.
\<close>

theorem unknown_sender_is_answered_422:
  assumes "validate schemaMessage body False = None"
    and "user \<notin> name ` set (participants d)"
    and "post_messages body user now d = (r, d')"
  shows "messages d' = messages d \<and> participants d' = participants d
       \<and> (\<not> rejects d \<longrightarrow> status r = 422 \<and> sent r = Remetente_nao_encontrado)"
proof -
  from assms(2) have "find (\<lambda>p. name p = user) (participants d) = None"
    by simp
  with assms(1,3) show ?thesis
    by (auto simp: post_messages_def findOne_name_def simp del: find_name_None split: if_splits)
qed

theorem unknown_sender_is_answered_422_witness:
  "status (fst (post_messages
             (JObj [(''to'', JStr ''bia''), (''text'', JStr ''oi''),
                    (''type'', JStr ''private_message'')])
             (Some ''zeca'') ''10:00:05'' room)) = 422
   \<and> messages (snd (post_messages
             (JObj [(''to'', JStr ''bia''), (''text'', JStr ''oi''),
                    (''type'', JStr ''private_message'')])
             (Some ''zeca'') ''10:00:05'' room)) = []
   \<and> status (fst (post_messages
             (JObj [(''to'', JStr ''bia''), (''text'', JStr ''oi''),
                    (''type'', JStr ''private_message'')])
             None ''10:00:05'' room)) = 422"
proof -
  let ?R = "post_messages
             (JObj [(''to'', JStr ''bia''), (''text'', JStr ''oi''),
                    (''type'', JStr ''private_message'')])
             (Some ''zeca'') ''10:00:05'' room"
  let ?N = "post_messages
             (JObj [(''to'', JStr ''bia''), (''text'', JStr ''oi''),
                    (''type'', JStr ''private_message'')])
             None ''10:00:05'' room"
  have u: "Some ''zeca'' \<notin> name ` set (participants room)"
    and n: "None \<notin> name ` set (participants room)"
    by (simp_all add: room_def)
  have e: "?R = (fst ?R, snd ?R)" and f: "?N = (fst ?N, snd ?N)"
    by simp_all
  have ok: "\<not> rejects room"
    by (simp add: rejects_def room_def)
  from unknown_sender_is_answered_422[OF oi_valid u e]
    unknown_sender_is_answered_422[OF oi_valid n f] ok
  show ?thesis
    by (simp add: room_def)
qed

end
